theory Spec2Isabelle
  imports Main "HOL-Library.AList"
begin

section \<open>Python values\<close>

text \<open>
  The request of \<open>AgentExecutor.execute\<close> is a \<open>Dict[str, Any]\<close> that the HTTP
  layer parses from JSON; the payloads the executor returns are dictionaries of
  strings, \<open>None\<close> and nested dictionaries. A dictionary is an association list
  in insertion order, read with \<open>map_of\<close> and written with \<open>AList.update\<close>
  (an existing key keeps its place, a new key is appended, as in Python).
  Floating-point JSON numbers are left out: no operation below reads one.
\<close>

datatype pyval =
    PNone
  | PBool bool
  | PInt int
  | PStr string
  | PList "pyval list"
  | PDict "(string \<times> pyval) list"

type_synonym pydict = "(string \<times> pyval) list"

text \<open>Truth value of an object, as \<open>not message\<close> tests it.\<close>

fun truthy :: "pyval \<Rightarrow> bool" where
  "truthy PNone = False"
| "truthy (PBool b) = b"
| "truthy (PInt i) = (i \<noteq> 0)"
| "truthy (PStr s) = (s \<noteq> [])"
| "truthy (PList xs) = (xs \<noteq> [])"
| "truthy (PDict kvs) = (kvs \<noteq> [])"

text \<open>\<open>d.get(k, default)\<close>\<close>

definition dict_get :: "pydict \<Rightarrow> string \<Rightarrow> pyval \<Rightarrow> pyval" where
  "dict_get d k dflt = (case map_of d k of None \<Rightarrow> dflt | Some v \<Rightarrow> v)"

text \<open>
  A \<open>datetime\<close> is kept as the text its \<open>isoformat()\<close> gives; the clock
  (\<open>datetime.utcnow()\<close>) is read by the environment and every reading is an argument
  of the operation that makes it. A \<open>datetime\<close> object is always true, so
  \<open>x.isoformat() if x else None\<close> tests for \<open>None\<close> only.
\<close>

datatype datetime = Datetime string

fun isoformat :: "datetime \<Rightarrow> string" where
  "isoformat (Datetime s) = s"

definition isoformat_or_None :: "datetime option \<Rightarrow> pyval" where
  "isoformat_or_None x = (case x of None \<Rightarrow> PNone | Some t \<Rightarrow> PStr (isoformat t))"

text \<open>
  What a call can raise to its caller: a \<open>KeyError\<close> for a missing dictionary
  key; another instance of \<open>Exception\<close>, with its text; or an exception that
  is not an instance of \<open>Exception\<close> (\<open>asyncio.CancelledError\<close>,
  \<open>KeyboardInterrupt\<close>, \<open>SystemExit\<close>), named by its class. \<open>except Exception\<close>
  catches the first two kinds and lets the third through.
\<close>

datatype py_error = KeyError string | OtherException string | BaseException string

text \<open>\<open>str(KeyError(k))\<close> for a string key is the key in single quotes.\<close>

definition str_KeyError :: "string \<Rightarrow> string" where
  "str_KeyError k = [CHR 0x27] @ k @ [CHR 0x27]"


section \<open>The execution records (\<open>executor.py\<close>)\<close>

datatype ExecutionStatus = PENDING | RUNNING | COMPLETED | CANCELLED | FAILED

text \<open>The \<open>.value\<close> of an \<open>ExecutionStatus\<close> member.\<close>

fun status_value :: "ExecutionStatus \<Rightarrow> string" where
  "status_value PENDING = ''pending''"
| "status_value RUNNING = ''running''"
| "status_value COMPLETED = ''completed''"
| "status_value CANCELLED = ''cancelled''"
| "status_value FAILED = ''failed''"

record execution =
  id' :: string
  status :: ExecutionStatus
  request :: pydict
  result :: "pydict option"
  error :: "string option"
  start_time :: "datetime option"
  end_time :: "datetime option"

text \<open>\<open>self.executions\<close>: execution id to record, in insertion order.\<close>

type_synonym store = "(string \<times> execution) list"


section \<open>\<open>AgentExecutor.execute\<close>\<close>

text \<open>
  \<open>execute\<close> is a coroutine with one suspension point, the awaited call of the
  message processor (line 75). Other coroutines of the event loop (further
  \<open>execute\<close> calls, \<open>cancel\<close>, the status queries) run on the same dictionary while
  it is suspended. The model therefore has the two halves of the body:
  \<open>execute_begin\<close> runs from the call to the await, or to the return when the
  message is rejected; \<open>execute_resume\<close> runs from the processor's answer to the
  return. The processor is the environment: its answer is an argument.
\<close>

text \<open>
  How the awaited call ends: the processor returns its response text; or an
  instance \<open>e\<close> of \<open>Exception\<close> is raised whose \<open>str(e)\<close> is the text carried
  by \<open>Raises\<close>; or an instance of \<open>Exception\<close> is raised whose \<open>__str__\<close>
  itself raises, the exception carried by \<open>RaisesUnprintable\<close>; or an exception
  outside \<open>Exception\<close> is raised, as when the task is cancelled at the await,
  with the name of its class carried by \<open>RaisesBase\<close>.
\<close>

datatype outcome =
    Returns string
  | Raises string
  | RaisesUnprintable py_error
  | RaisesBase string

text \<open>
  How \<open>execute_begin\<close> ends: the coroutine has returned, or it is suspended in
  \<open>process_message(message)\<close> holding its local \<open>execution_id\<close>.
\<close>

datatype begin_result =
    Returned "py_error + pydict"
  | Awaiting string pyval

text \<open>
  The handler \<open>except Exception as e\<close> (lines 96-114). The record is looked up
  before the clock is read; a missing record raises \<open>KeyError\<close> out of the
  handler, which nothing catches.
\<close>

definition execute_except ::
  "string \<Rightarrow> string \<Rightarrow> datetime \<Rightarrow> datetime \<Rightarrow> store \<Rightarrow> (py_error + pydict) \<times> store" where
  "execute_except execution_id str_e t_end t_stamp st =
     (let error_msg = ''Execution failed: '' @ str_e in
      case map_of st execution_id of
        None \<Rightarrow> (Inl (KeyError execution_id), st)
      | Some execution \<Rightarrow>
          (Inr [(''execution_id'', PStr execution_id),
                (''response'', PStr (''I apologize, but I encountered an error processing your request: '' @ error_msg)),
                (''status'', PStr ''error''),
                (''timestamp'', PStr (isoformat t_stamp)),
                (''agent_type'', PStr ''product_manager''),
                (''error'', PStr error_msg)],
           AList.update execution_id
             (execution\<lparr>status := FAILED, error := Some error_msg, end_time := Some t_end\<rparr>) st))"

text \<open>
  Lines 49-75. \<open>execution_id\<close> is the value \<open>str(uuid.uuid4())\<close> drew, \<open>t_start\<close>
  the clock at line 58; \<open>t_end\<close> and \<open>t_stamp\<close> are the readings of lines 104 and
  111, made only when the message is rejected.
\<close>

definition execute_begin ::
  "string \<Rightarrow> datetime \<Rightarrow> datetime \<Rightarrow> datetime \<Rightarrow> pydict \<Rightarrow> store \<Rightarrow> begin_result \<times> store" where
  "execute_begin execution_id t_start t_end t_stamp req st =
     (let pending = \<lparr>id' = execution_id, status = PENDING, request = req, result = None,
                      error = None, start_time = Some t_start, end_time = None\<rparr>;
          st1 = AList.update execution_id pending st;
          st2 = AList.update execution_id (pending\<lparr>status := RUNNING\<rparr>) st1;
          message = dict_get req ''message'' (PStr '''')
      in if \<not> truthy message
         then (case execute_except execution_id ''Message is required'' t_end t_stamp st2 of
                 (r, st3) \<Rightarrow> (Returned r, st3))
         else (Awaiting execution_id message, st2))"

text \<open>
  Lines 75-114, from the moment the awaited call ends. On a returned response
  \<open>t1\<close> is the clock at line 82 and \<open>t2\<close> at line 90; on an exception \<open>t1\<close> is
  the clock at line 104 and \<open>t2\<close> at line 111. A \<open>KeyError\<close> at line 87 is
  raised inside \<open>try\<close> and enters the handler. The handler evaluates \<open>str(e)\<close>
  first (line 97), with nothing around it: what \<open>__str__\<close> raises leaves
  \<open>execute\<close> before line 101 writes the record. An exception outside
  \<open>Exception\<close> does not match line 96: it leaves \<open>execute\<close> with the store as
  it is.
\<close>

definition execute_resume ::
  "string \<Rightarrow> outcome \<Rightarrow> datetime \<Rightarrow> datetime \<Rightarrow> store \<Rightarrow> (py_error + pydict) \<times> store" where
  "execute_resume execution_id out t1 t2 st =
     (case out of
        Raises str_e \<Rightarrow> execute_except execution_id str_e t1 t2 st
      | RaisesUnprintable x \<Rightarrow> (Inl x, st)
      | RaisesBase cls \<Rightarrow> (Inl (BaseException cls), st)
      | Returns response \<Rightarrow>
          (let res = [(''execution_id'', PStr execution_id),
                      (''response'', PStr response),
                      (''status'', PStr ''success''),
                      (''timestamp'', PStr (isoformat t1)),
                      (''agent_type'', PStr ''product_manager'')]
           in case map_of st execution_id of
                None \<Rightarrow> execute_except execution_id (str_KeyError execution_id) t1 t2 st
              | Some execution \<Rightarrow>
                  (Inr res,
                   AList.update execution_id
                     (execution\<lparr>status := COMPLETED, result := Some res, end_time := Some t2\<rparr>) st)))"


section \<open>\<open>cancel\<close>, \<open>get_execution_status\<close>, \<open>list_executions\<close>\<close>

text \<open>\<open>cancel\<close> (lines 116-154) has no await: it runs in one piece.\<close>

definition cancel :: "string \<Rightarrow> datetime \<Rightarrow> store \<Rightarrow> pydict \<times> store" where
  "cancel execution_id now st =
     (case map_of st execution_id of
        None \<Rightarrow>
          ([(''execution_id'', PStr execution_id),
            (''status'', PStr ''error''),
            (''message'', PStr ''Execution not found'')], st)
      | Some execution \<Rightarrow>
          if status execution \<in> set [COMPLETED, FAILED, CANCELLED]
          then ([(''execution_id'', PStr execution_id),
                 (''status'', PStr ''error''),
                 (''message'', PStr (''Execution already '' @ status_value (status execution)))], st)
          else ([(''execution_id'', PStr execution_id),
                 (''status'', PStr ''cancelled''),
                 (''message'', PStr ''Execution cancelled successfully'')],
                AList.update execution_id
                  (execution\<lparr>status := CANCELLED, end_time := Some now\<rparr>) st))"

text \<open>Lines 156-182; it only reads the dictionary.\<close>

definition get_execution_status :: "string \<Rightarrow> store \<Rightarrow> pydict" where
  "get_execution_status execution_id st =
     (case map_of st execution_id of
        None \<Rightarrow>
          [(''execution_id'', PStr execution_id),
           (''status'', PStr ''error''),
           (''message'', PStr ''Execution not found'')]
      | Some execution \<Rightarrow>
          [(''execution_id'', PStr execution_id),
           (''status'', PStr (status_value (status execution))),
           (''start_time'', isoformat_or_None (start_time execution)),
           (''end_time'', isoformat_or_None (end_time execution)),
           (''result'', (case result execution of None \<Rightarrow> PNone | Some r \<Rightarrow> PDict r)),
           (''error'', (case error execution of None \<Rightarrow> PNone | Some e \<Rightarrow> PStr e))])"

text \<open>Lines 184-199: one summary for each item of the dictionary.\<close>

definition list_executions :: "store \<Rightarrow> pydict list" where
  "list_executions st =
     map (\<lambda>(execution_id, execution).
            [(''execution_id'', PStr execution_id),
             (''status'', PStr (status_value (status execution))),
             (''start_time'', isoformat_or_None (start_time execution)),
             (''end_time'', isoformat_or_None (end_time execution))]) st"


section \<open>The event loop\<close>

text \<open>
  The state the coroutines share is the dictionary of \<open>AgentExecutor\<close>; next to
  it the model keeps which \<open>execute\<close> coroutines are suspended at line 75, each
  by the \<open>execution_id\<close> it holds. \<open>AgentExecutor.__init__\<close> starts from the
  empty dictionary.
\<close>

record system =
  executions :: store
  awaiting :: "string list"

definition init_system :: system where
  "init_system = \<lparr>executions = [], awaiting = []\<rparr>"

text \<open>
  What the event loop can run in one piece: the first half of an \<open>execute\<close>
  call (with the identifier \<open>uuid4\<close> drew and the clock readings), the second
  half of a suspended \<open>execute\<close> once the processor has answered, a \<open>cancel\<close>
  call, a \<open>get_execution_status\<close> call, a \<open>list_executions\<close> call.
\<close>

datatype event =
    ExecuteCall string datetime datetime datetime pydict
  | ProcessorDone string outcome datetime datetime
  | CancelCall string datetime
  | StatusCall string
  | ListCall

fun step :: "event \<Rightarrow> system \<Rightarrow> system" where
  "step (ExecuteCall uuid t_start t_end t_stamp req) sys =
     (case execute_begin uuid t_start t_end t_stamp req (executions sys) of
        (Returned r, st) \<Rightarrow> sys\<lparr>executions := st\<rparr>
      | (Awaiting execution_id message, st) \<Rightarrow>
          sys\<lparr>executions := st, awaiting := awaiting sys @ [execution_id]\<rparr>)"
| "step (ProcessorDone execution_id out t1 t2) sys =
     (if execution_id \<in> set (awaiting sys)
      then sys\<lparr>executions := snd (execute_resume execution_id out t1 t2 (executions sys)),
               awaiting := remove1 execution_id (awaiting sys)\<rparr>
      else sys)"
| "step (CancelCall execution_id now) sys =
     sys\<lparr>executions := snd (cancel execution_id now (executions sys))\<rparr>"
| "step (StatusCall execution_id) sys = sys"
| "step ListCall sys = sys"

primrec run :: "event list \<Rightarrow> system \<Rightarrow> system" where
  "run [] sys = sys"
| "run (e # es) sys = run es (step e sys)"

text \<open>
  One whole call of \<open>execute\<close>, from the call to the return: \<open>during\<close> are the
  events of the other coroutines that the loop runs while this call waits for
  the processor (none when the call is alone), \<open>out\<close> is how the awaited call
  ends. The call reads the clock at most three times: \<open>t_start\<close>, and \<open>t1\<close>,
  \<open>t2\<close> on the one path it takes after that.
\<close>

definition execute ::
  "string \<Rightarrow> datetime \<Rightarrow> datetime \<Rightarrow> datetime \<Rightarrow> pydict \<Rightarrow> event list \<Rightarrow> outcome \<Rightarrow> system
     \<Rightarrow> (py_error + pydict) \<times> system" where
  "execute uuid t_start t1 t2 req during out sys =
     (case execute_begin uuid t_start t1 t2 req (executions sys) of
        (Returned r, st) \<Rightarrow> (r, sys\<lparr>executions := st\<rparr>)
      | (Awaiting execution_id message, st) \<Rightarrow>
          (let sys1 = run during (sys\<lparr>executions := st, awaiting := awaiting sys @ [execution_id]\<rparr>)
           in case execute_resume execution_id out t1 t2 (executions sys1) of
                (r, st2) \<Rightarrow>
                  (r, sys1\<lparr>executions := st2, awaiting := remove1 execution_id (awaiting sys1)\<rparr>)))"

text \<open>The identifier an event draws from \<open>uuid.uuid4()\<close>, and those of a run.\<close>

fun drawn :: "event \<Rightarrow> string list" where
  "drawn (ExecuteCall uuid t_start t_end t_stamp req) = [uuid]"
| "drawn e = []"

definition uuids :: "event list \<Rightarrow> string list" where
  "uuids evs = concat (map drawn evs)"


section \<open>The HTTP facade (\<open>a2a_server.py\<close>)\<close>

text \<open>
  A \<open>JSONResponse\<close> is its status code and its body. \<open>_status_endpoint\<close>
  (lines 179-193): \<open>get_execution_status\<close> raises nothing, so the handler of
  line 188 is never entered.
\<close>

definition status_endpoint :: "string \<Rightarrow> store \<Rightarrow> nat \<times> pydict" where
  "status_endpoint execution_id st =
     (let res = get_execution_status execution_id st;
          status_code = (if map_of res ''status'' \<noteq> Some (PStr ''error'') then 200 else 404)
      in (status_code, res))"

text \<open>
  \<open>_execute_endpoint\<close> (lines 139-161) for a body that is a JSON object. Its
  own \<open>except Exception\<close> (line 156) answers an \<open>Exception\<close> out of \<open>execute\<close>
  with 500 and lets any other exception through.
\<close>

definition execute_endpoint ::
  "pydict \<Rightarrow> string \<Rightarrow> datetime \<Rightarrow> datetime \<Rightarrow> datetime \<Rightarrow> event list \<Rightarrow> outcome \<Rightarrow> system
     \<Rightarrow> (py_error + nat \<times> pydict) \<times> system" where
  "execute_endpoint body uuid t_start t1 t2 during out sys =
     (if map_of body ''message'' = None
      then (Inr (400, [(''error'', PStr ''Message is required'')]), sys)
      else case execute uuid t_start t1 t2 body during out sys of
             (Inr res, sys1) \<Rightarrow> (Inr (200, res), sys1)
           | (Inl (KeyError k), sys1) \<Rightarrow>
               (Inr (500, [(''error'', PStr (''Execution failed: '' @ str_KeyError k))]), sys1)
           | (Inl (OtherException s), sys1) \<Rightarrow>
               (Inr (500, [(''error'', PStr (''Execution failed: '' @ s))]), sys1)
           | (Inl (BaseException cls), sys1) \<Rightarrow> (Inl (BaseException cls), sys1))"


section \<open>The chat router (\<open>chat.py\<close>)\<close>

text \<open>
  The two pydantic models. Their fields carry a prefix, since \<open>status\<close> and
  \<open>request\<close> are fields of the execution record. \<open>message\<close> is a required
  \<open>str\<close>; the other request fields are optional.
\<close>

record ChatRequest =
  req_message :: string
  req_session_id :: "string option"
  req_conversation_id :: "string option"
  req_metadata :: "pydict option"

record ChatResponse =
  resp_response :: string
  resp_execution_id :: string
  resp_status :: string
  resp_metadata :: "pydict option"

text \<open>
  What \<open>chat_with_agent\<close> raises: \<open>HTTPException(status_code=...)\<close> (the detail
  text is left out), or an exception outside \<open>Exception\<close> that its handler of
  line 85 lets through.
\<close>

datatype chat_raised = HTTPException nat | Uncaught string

definition str_or_None :: "string option \<Rightarrow> pyval" where
  "str_or_None x = (case x of None \<Rightarrow> PNone | Some s \<Rightarrow> PStr s)"

text \<open>Lines 61-65; \<open>a or b\<close> is \<open>a\<close> when \<open>a\<close> is true and \<open>b\<close> otherwise.\<close>

definition execution_request :: "ChatRequest \<Rightarrow> pydict" where
  "execution_request r =
     [(''message'', PStr (req_message r)),
      (''conversation_id'',
         (if truthy (str_or_None (req_conversation_id r))
          then str_or_None (req_conversation_id r)
          else str_or_None (req_session_id r))),
      (''metadata'',
         (case req_metadata r of
            None \<Rightarrow> PDict []
          | Some m \<Rightarrow> if truthy (PDict m) then PDict m else PDict []))]"

text \<open>
  Lines 71-90, from the result of \<open>executor.execute\<close>. \<open>ChatResponse(...)\<close>
  validates its arguments (three \<open>str\<close>, an optional dictionary); a validation
  error, like an \<open>Exception\<close> out of \<open>execute\<close>, is caught at line 85 and becomes
  the 500 of line 87.
\<close>

definition chat_response :: "py_error + pydict \<Rightarrow> chat_raised + ChatResponse" where
  "chat_response r =
     (case r of
        Inl (KeyError k) \<Rightarrow> Inl (HTTPException 500)
      | Inl (OtherException s) \<Rightarrow> Inl (HTTPException 500)
      | Inl (BaseException cls) \<Rightarrow> Inl (Uncaught cls)
      | Inr res \<Rightarrow>
          (let response_text =
                 (if map_of res ''status'' = Some (PStr ''success'')
                  then dict_get res ''response'' (PStr '''')
                  else dict_get res ''error'' (PStr ''An error occurred during processing''));
               eid = dict_get res ''execution_id'' (PStr '''');
               stat = (if map_of res ''status'' = Some (PStr ''success'')
                       then PStr ''completed''
                       else dict_get res ''status'' (PStr ''unknown''));
               meta = dict_get res ''metadata'' (PDict [])
           in case (response_text, eid, stat, meta) of
                (PStr a, PStr b, PStr c, PDict d) \<Rightarrow>
                  Inr \<lparr>resp_response = a, resp_execution_id = b, resp_status = c,
                       resp_metadata = Some d\<rparr>
              | (PStr a, PStr b, PStr c, PNone) \<Rightarrow>
                  Inr \<lparr>resp_response = a, resp_execution_id = b, resp_status = c,
                       resp_metadata = None\<rparr>
              | _ \<Rightarrow> Inl (HTTPException 500)))"

text \<open>\<open>chat_with_agent\<close> (lines 46-90): one whole call, as for \<open>execute\<close>.\<close>

definition chat_with_agent ::
  "ChatRequest \<Rightarrow> string \<Rightarrow> datetime \<Rightarrow> datetime \<Rightarrow> datetime \<Rightarrow> event list \<Rightarrow> outcome \<Rightarrow> system
     \<Rightarrow> (chat_raised + ChatResponse) \<times> system" where
  "chat_with_agent r uuid t_start t1 t2 during out sys =
     (case execute uuid t_start t1 t2 (execution_request r) during out sys of
        (res, sys1) \<Rightarrow> (chat_response res, sys1))"


section \<open>Counting the calls, and an example run\<close>

text \<open>The events that are calls of \<open>execute\<close>.\<close>

fun is_execute_call :: "event \<Rightarrow> bool" where
  "is_execute_call (ExecuteCall uuid t_start t_end t_stamp req) = True"
| "is_execute_call e = False"

text \<open>
  A run to try the statements on: \<open>a\<close> is completed, \<open>b\<close> is rejected for its
  empty message, \<open>c\<close> is cancelled while it waits for the processor, \<open>d\<close> is
  still waiting.
\<close>

definition demo_run :: "event list" where
  "demo_run =
     [ExecuteCall ''a'' (Datetime ''T01'') (Datetime ''T02'') (Datetime ''T03'')
        [(''message'', PStr ''hello'')],
      ExecuteCall ''b'' (Datetime ''T04'') (Datetime ''T05'') (Datetime ''T06'')
        [(''message'', PStr '''')],
      ExecuteCall ''c'' (Datetime ''T07'') (Datetime ''T08'') (Datetime ''T09'')
        [(''message'', PStr ''paint'')],
      StatusCall ''c'',
      CancelCall ''c'' (Datetime ''T10''),
      ProcessorDone ''a'' (Returns ''world'') (Datetime ''T11'') (Datetime ''T12''),
      ListCall,
      ExecuteCall ''d'' (Datetime ''T13'') (Datetime ''T14'') (Datetime ''T15'')
        [(''message'', PStr ''rollers'')]]"


section \<open>Invariants of the store\<close>

text \<open>
  The three "iff" sentences of the data model, for one record; what holds of a
  record whose \<open>execute\<close> is suspended at line 75; and the two together for a
  system state.
\<close>

definition record_ok :: "execution \<Rightarrow> bool" where
  "record_ok ex \<longleftrightarrow>
     (result ex \<noteq> None \<longleftrightarrow> status ex = COMPLETED) \<and>
     (error ex \<noteq> None \<longleftrightarrow> status ex = FAILED) \<and>
     (end_time ex = None \<longleftrightarrow> status ex = PENDING \<or> status ex = RUNNING)"

definition in_flight_ok :: "execution \<Rightarrow> bool" where
  "in_flight_ok ex \<longleftrightarrow>
     (status ex = RUNNING \<or> status ex = CANCELLED) \<and> result ex = None \<and> error ex = None"

definition system_ok :: "system \<Rightarrow> bool" where
  "system_ok sys \<longleftrightarrow>
     distinct (awaiting sys) \<and>
     (\<forall>eid \<in> set (awaiting sys).
        \<exists>ex. map_of (executions sys) eid = Some ex \<and> in_flight_ok ex) \<and>
     (\<forall>eid ex. map_of (executions sys) eid = Some ex \<longrightarrow> record_ok ex)"

section \<open>How the operations change the store\<close>

lemma keys_update_present:
  "map_of st k = Some v \<Longrightarrow> map fst (AList.update k v' st) = map fst st"
  by (auto simp: update_keys dest: map_of_SomeD intro: rev_image_eqI)

lemma map_of_execute_except:
  "map_of st eid = Some ex \<Longrightarrow>
   map_of (snd (execute_except eid e ta tb st)) =
     (map_of st)(eid \<mapsto> ex\<lparr>status := FAILED, error := Some (''Execution failed: '' @ e),
                               end_time := Some ta\<rparr>)"
  by (simp add: execute_except_def update_conv' Let_def)

lemma map_of_execute_begin:
  "map_of (snd (execute_begin uuid t0 ta tb req st)) =
     (map_of st)(uuid \<mapsto>
        (if truthy (dict_get req ''message'' (PStr ''''))
         then \<lparr>id' = uuid, status = RUNNING, request = req, result = None, error = None,
               start_time = Some t0, end_time = None\<rparr>
         else \<lparr>id' = uuid, status = FAILED, request = req, result = None,
               error = Some ''Execution failed: Message is required'',
               start_time = Some t0, end_time = Some ta\<rparr>))"
  by (simp add: execute_begin_def execute_except_def update_conv' Let_def)

lemma map_of_execute_resume:
  "map_of st eid = Some ex \<Longrightarrow>
   map_of (snd (execute_resume eid out t1 t2 st)) =
     (map_of st)(eid \<mapsto>
       (case out of
          Returns r \<Rightarrow>
            ex\<lparr>status := COMPLETED,
               result := Some [(''execution_id'', PStr eid), (''response'', PStr r),
                               (''status'', PStr ''success''),
                               (''timestamp'', PStr (isoformat t1)),
                               (''agent_type'', PStr ''product_manager'')],
               end_time := Some t2\<rparr>
        | Raises e \<Rightarrow>
            ex\<lparr>status := FAILED, error := Some (''Execution failed: '' @ e),
               end_time := Some t1\<rparr>
        | RaisesUnprintable x \<Rightarrow> ex
        | RaisesBase cls \<Rightarrow> ex))"
  by (auto simp add: execute_resume_def map_of_execute_except update_conv' Let_def
      split: outcome.splits)

lemma map_of_cancel:
  "map_of (snd (cancel eid now st)) =
     (case map_of st eid of
        None \<Rightarrow> map_of st
      | Some ex \<Rightarrow>
          if status ex = COMPLETED \<or> status ex = FAILED \<or> status ex = CANCELLED
          then map_of st
          else (map_of st)(eid \<mapsto> ex\<lparr>status := CANCELLED, end_time := Some now\<rparr>))"
  by (simp add: cancel_def update_conv' split: option.splits)

lemma keys_execute_begin:
  "map fst (snd (execute_begin uuid t0 ta tb req st)) =
     (if uuid \<in> set (map fst st) then map fst st else map fst st @ [uuid])"
  by (simp add: execute_begin_def execute_except_def update_conv' update_keys Let_def)

lemma keys_execute_except:
  "map fst (snd (execute_except eid e ta tb st)) = map fst st"
  by (simp add: execute_except_def keys_update_present Let_def split: option.splits)

lemma keys_execute_resume:
  "map fst (snd (execute_resume eid out t1 t2 st)) = map fst st"
  by (simp add: execute_resume_def keys_execute_except keys_update_present Let_def
      split: option.splits outcome.splits)

lemma keys_cancel:
  "map fst (snd (cancel eid now st)) = map fst st"
  by (simp add: cancel_def keys_update_present split: option.splits)

lemma executions_execute_call:
  "executions (step (ExecuteCall uuid t0 ta tb req) sys) =
     snd (execute_begin uuid t0 ta tb req (executions sys))"
  by (simp split: prod.splits begin_result.splits)

lemma awaiting_execute_call:
  "awaiting (step (ExecuteCall uuid t0 ta tb req) sys) =
     (if truthy (dict_get req ''message'' (PStr '''')) then awaiting sys @ [uuid]
      else awaiting sys)"
  by (simp add: execute_begin_def Let_def split: prod.splits)

text \<open>
  No operation removes a key or reorders the dictionary: a step appends the
  identifier it draws when that is new, and nothing else.
\<close>

lemma keys_step:
  "map fst (executions (step e sys)) =
     map fst (executions sys) @ filter (\<lambda>u. u \<notin> set (map fst (executions sys))) (drawn e)"
proof (cases e)
  case (ExecuteCall uuid t0 ta tb req)
  then show ?thesis
    by (simp only: executions_execute_call keys_execute_begin drawn.simps) simp
qed (simp_all add: keys_execute_resume keys_cancel)

lemma keys_run_subset:
  "set (map fst (executions sys)) \<subseteq> set (map fst (executions (run evs sys)))"
proof (induction evs arbitrary: sys)
  case Nil
  show ?case by simp
next
  case (Cons e evs)
  have "set (map fst (executions sys)) \<subseteq> set (map fst (executions (step e sys)))"
    by (simp only: keys_step [of e sys]) auto
  also have "\<dots> \<subseteq> set (map fst (executions (run evs (step e sys))))"
    by (rule Cons.IH)
  finally show ?case by simp
qed

lemma keys_run:
  "distinct (uuids evs) \<Longrightarrow> set (uuids evs) \<inter> set (map fst (executions sys)) = {} \<Longrightarrow>
   map fst (executions (run evs sys)) = map fst (executions sys) @ uuids evs"
proof (induction evs arbitrary: sys)
  case Nil
  then show ?case by (simp add: uuids_def)
next
  case (Cons e evs)
  from Cons.prems
  have fresh: "filter (\<lambda>u. u \<notin> set (map fst (executions sys))) (drawn e) = drawn e"
    by (cases e) (auto simp: uuids_def)
  have k: "map fst (executions (step e sys)) = map fst (executions sys) @ drawn e"
    using keys_step [of e sys] fresh by simp
  from Cons.prems have d: "distinct (uuids evs)"
    and i: "set (uuids evs) \<inter> set (map fst (executions (step e sys))) = {}"
    by (auto simp: uuids_def k)
  show ?case
    using Cons.IH [OF d i] k by (simp add: uuids_def)
qed

section \<open>The invariant holds in every run with fresh identifiers\<close>

lemma system_ok_init: "system_ok init_system"
  by (simp add: system_ok_def init_system_def)

lemma system_ok_execute_call:
  assumes "system_ok sys" and "uuid \<notin> set (map fst (executions sys))"
  shows "system_ok (step (ExecuteCall uuid t0 ta tb req) sys)"
proof -
  from assms(2) have none: "map_of (executions sys) uuid = None"
    by (simp add: map_of_eq_None_iff)
  with assms(1) have notin: "uuid \<notin> set (awaiting sys)"
    by (auto simp: system_ok_def)
  show ?thesis
    unfolding system_ok_def awaiting_execute_call executions_execute_call map_of_execute_begin
    using assms(1) notin none
    by (auto simp: system_ok_def record_ok_def in_flight_ok_def)
qed

lemma system_ok_processor_done:
  assumes "system_ok sys"
  shows "system_ok (step (ProcessorDone eid out t1 t2) sys)"
proof (cases "eid \<in> set (awaiting sys)")
  case False
  with assms show ?thesis by simp
next
  case True
  with assms obtain ex where ex: "map_of (executions sys) eid = Some ex" "in_flight_ok ex"
    by (auto simp: system_ok_def)
  show ?thesis
    using assms True ex
    by (cases out)
      (auto simp: system_ok_def map_of_execute_resume record_ok_def in_flight_ok_def)
qed

lemma system_ok_cancel_call:
  assumes "system_ok sys"
  shows "system_ok (step (CancelCall eid now) sys)"
  using assms
  by (auto simp: system_ok_def map_of_cancel record_ok_def in_flight_ok_def
      split: option.splits)

lemma system_ok_step:
  assumes "system_ok sys" and "set (drawn e) \<inter> set (map fst (executions sys)) = {}"
  shows "system_ok (step e sys)"
proof (cases e)
  case (ExecuteCall uuid t0 ta tb req)
  with assms show ?thesis by (simp add: system_ok_execute_call del: step.simps)
next
  case (ProcessorDone eid out t1 t2)
  with assms show ?thesis by (simp add: system_ok_processor_done del: step.simps)
next
  case (CancelCall eid now)
  with assms show ?thesis by (simp add: system_ok_cancel_call del: step.simps)
qed (use assms in simp_all)

lemma system_ok_run:
  "system_ok sys \<Longrightarrow> distinct (uuids evs) \<Longrightarrow>
   set (uuids evs) \<inter> set (map fst (executions sys)) = {} \<Longrightarrow>
   system_ok (run evs sys)"
proof (induction evs arbitrary: sys)
  case Nil
  then show ?case by simp
next
  case (Cons e evs)
  from Cons.prems have fresh: "set (drawn e) \<inter> set (map fst (executions sys)) = {}"
    by (auto simp: uuids_def)
  then have k: "map fst (executions (step e sys)) = map fst (executions sys) @ drawn e"
    using keys_step [of e sys] by (cases e) auto
  from Cons.prems(1) fresh have w: "system_ok (step e sys)" by (rule system_ok_step)
  from Cons.prems have d: "distinct (uuids evs)"
    and i: "set (uuids evs) \<inter> set (map fst (executions (step e sys))) = {}"
    by (auto simp: uuids_def k)
  show ?case
    using Cons.IH [OF w d i] by simp
qed

lemma system_ok_reachable:
  "distinct (uuids evs) \<Longrightarrow> system_ok (run evs init_system)"
  by (rule system_ok_run) (simp_all add: system_ok_init, simp add: init_system_def)

section \<open>The two ways through \<open>execute\<close>\<close>

lemma execute_begin_rejected:
  assumes "\<not> truthy (dict_get req ''message'' (PStr ''''))"
  shows "fst (execute_begin uuid t0 t1 t2 req st) =
           Returned (Inr [(''execution_id'', PStr uuid),
                          (''response'', PStr ''I apologize, but I encountered an error processing your request: Execution failed: Message is required''),
                          (''status'', PStr ''error''),
                          (''timestamp'', PStr (isoformat t2)),
                          (''agent_type'', PStr ''product_manager''),
                          (''error'', PStr ''Execution failed: Message is required'')])"
  using assms by (simp add: execute_begin_def execute_except_def update_conv' Let_def)

lemma execute_begin_accepted:
  assumes "truthy (dict_get req ''message'' (PStr ''''))"
  shows "fst (execute_begin uuid t0 t1 t2 req st) =
           Awaiting uuid (dict_get req ''message'' (PStr ''''))"
  using assms by (simp add: execute_begin_def Let_def)

lemma execute_resume_present:
  assumes "map_of st eid = Some ex"
  shows "fst (execute_resume eid out t1 t2 st) =
           (case out of
              Returns r \<Rightarrow>
                Inr [(''execution_id'', PStr eid), (''response'', PStr r),
                     (''status'', PStr ''success''), (''timestamp'', PStr (isoformat t1)),
                     (''agent_type'', PStr ''product_manager'')]
            | Raises e \<Rightarrow>
                Inr [(''execution_id'', PStr eid),
                     (''response'', PStr (''I apologize, but I encountered an error processing your request: '' @ ''Execution failed: '' @ e)),
                     (''status'', PStr ''error''), (''timestamp'', PStr (isoformat t2)),
                     (''agent_type'', PStr ''product_manager''),
                     (''error'', PStr (''Execution failed: '' @ e))]
            | RaisesUnprintable x \<Rightarrow> Inl x
            | RaisesBase cls \<Rightarrow> Inl (BaseException cls))"
  using assms
  by (simp add: execute_resume_def execute_except_def Let_def split: outcome.splits)

text \<open>
  Whatever runs while \<open>execute\<close> waits, the record it created is still in the
  store when the processor answers.
\<close>

lemma record_survives:
  "\<exists>ex. map_of (executions (run during
           (sys\<lparr>executions := snd (execute_begin uuid t0 t1 t2 req (executions sys)),
                awaiting := aw\<rparr>))) uuid = Some ex"
proof -
  let ?sys0 = "sys\<lparr>executions := snd (execute_begin uuid t0 t1 t2 req (executions sys)),
                   awaiting := aw\<rparr>"
  have "uuid \<in> set (map fst (executions ?sys0))"
    by (simp add: keys_execute_begin)
  then have "uuid \<in> set (map fst (executions (run during ?sys0)))"
    using keys_run_subset [of ?sys0 during] by blast
  then have "map_of (executions (run during ?sys0)) uuid \<noteq> None"
    by (simp add: map_of_eq_None_iff)
  then show ?thesis by blast
qed

lemma execute_rejected:
  assumes "\<not> truthy (dict_get req ''message'' (PStr ''''))"
  shows "execute uuid t0 t1 t2 req during out sys =
           (Inr [(''execution_id'', PStr uuid),
                 (''response'', PStr ''I apologize, but I encountered an error processing your request: Execution failed: Message is required''),
                 (''status'', PStr ''error''),
                 (''timestamp'', PStr (isoformat t2)),
                 (''agent_type'', PStr ''product_manager''),
                 (''error'', PStr ''Execution failed: Message is required'')],
            sys\<lparr>executions := snd (execute_begin uuid t0 t1 t2 req (executions sys))\<rparr>)"
proof -
  obtain b st where eq: "execute_begin uuid t0 t1 t2 req (executions sys) = (b, st)"
    by (cases "execute_begin uuid t0 t1 t2 req (executions sys)")
  with execute_begin_rejected [OF assms, of uuid t0 t1 t2 "executions sys"]
  show ?thesis
    by (simp add: execute_def)
qed

lemma execute_accepted:
  assumes "truthy (dict_get req ''message'' (PStr ''''))"
  shows "execute uuid t0 t1 t2 req during out sys =
           (let sys1 = run during
                  (sys\<lparr>executions := snd (execute_begin uuid t0 t1 t2 req (executions sys)),
                       awaiting := awaiting sys @ [uuid]\<rparr>)
            in (fst (execute_resume uuid out t1 t2 (executions sys1)),
                sys1\<lparr>executions := snd (execute_resume uuid out t1 t2 (executions sys1)),
                     awaiting := remove1 uuid (awaiting sys1)\<rparr>))"
proof -
  obtain b st where eq: "execute_begin uuid t0 t1 t2 req (executions sys) = (b, st)"
    by (cases "execute_begin uuid t0 t1 t2 req (executions sys)")
  with execute_begin_accepted [OF assms, of uuid t0 t1 t2 "executions sys"]
  show ?thesis
    by (simp add: execute_def Let_def split: prod.splits)
qed

section \<open>Records that are settled\<close>

text \<open>
  What does hold of terminal records: a record that is Completed, Cancelled or
  Failed and whose \<open>execute\<close> call is not waiting for the processor is never
  changed by a later event, as long as \<open>uuid4\<close> does not draw its identifier
  again. A Completed or Failed record is always of this kind; a Cancelled one
  is not while its call is still suspended.
\<close>

lemma run_append: "run (xs @ ys) sys = run ys (run xs sys)"
  by (induction xs arbitrary: sys) simp_all

lemma settled_step:
  assumes ok: "system_ok sys"
    and ex: "map_of (executions sys) eid = Some ex"
    and terminal: "status ex = COMPLETED \<or> status ex = CANCELLED \<or> status ex = FAILED"
    and idle: "eid \<notin> set (awaiting sys)"
    and fresh: "set (drawn e) \<inter> set (map fst (executions sys)) = {}"
  shows "map_of (executions (step e sys)) eid = Some ex \<and> eid \<notin> set (awaiting (step e sys))"
proof (cases e)
  case (ExecuteCall uuid t0 ta tb req)
  from ex have "eid \<in> set (map fst (executions sys))"
    by (auto dest: map_of_SomeD intro: rev_image_eqI)
  with fresh ExecuteCall have "uuid \<noteq> eid"
    by auto
  with ex idle show ?thesis
    unfolding ExecuteCall
    by (simp only: executions_execute_call awaiting_execute_call map_of_execute_begin) simp
next
  case (ProcessorDone eid' out t1 t2)
  show ?thesis
  proof (cases "eid' \<in> set (awaiting sys)")
    case False
    with ex idle show ?thesis by (simp add: ProcessorDone)
  next
    case True
    with idle have ne: "eid' \<noteq> eid" by auto
    from ok True obtain ex' where "map_of (executions sys) eid' = Some ex'"
      by (auto simp: system_ok_def)
    with ne ex idle True show ?thesis
      by (simp add: ProcessorDone map_of_execute_resume)
  qed
next
  case (CancelCall eid' now)
  with ex terminal idle show ?thesis
    by (auto simp: map_of_cancel split: option.splits)
next
  case (StatusCall eid')
  with ex idle show ?thesis by simp
next
  case ListCall
  with ex idle show ?thesis by simp
qed

lemma settled_run:
  "system_ok sys \<Longrightarrow> map_of (executions sys) eid = Some ex \<Longrightarrow>
   status ex = COMPLETED \<or> status ex = CANCELLED \<or> status ex = FAILED \<Longrightarrow>
   eid \<notin> set (awaiting sys) \<Longrightarrow>
   distinct (uuids evs) \<Longrightarrow> set (uuids evs) \<inter> set (map fst (executions sys)) = {} \<Longrightarrow>
   map_of (executions (run evs sys)) eid = Some ex"
proof (induction evs arbitrary: sys)
  case Nil
  then show ?case by simp
next
  case (Cons e evs)
  from Cons.prems(6) have fresh: "set (drawn e) \<inter> set (map fst (executions sys)) = {}"
    by (auto simp: uuids_def)
  then have k: "map fst (executions (step e sys)) = map fst (executions sys) @ drawn e"
    using keys_step [of e sys] by (cases e) auto
  from Cons.prems(1) fresh have w: "system_ok (step e sys)"
    by (rule system_ok_step)
  from settled_step [OF Cons.prems(1,2,3,4) fresh]
  have s: "map_of (executions (step e sys)) eid = Some ex"
    and a: "eid \<notin> set (awaiting (step e sys))"
    by simp_all
  from Cons.prems(5,6) have d: "distinct (uuids evs)"
    and i: "set (uuids evs) \<inter> set (map fst (executions (step e sys))) = {}"
    by (auto simp: uuids_def k)
  show ?case
    using Cons.IH [OF w s Cons.prems(3) a d i] by simp
qed

lemma finished_not_awaiting:
  assumes "system_ok sys" and "map_of (executions sys) eid = Some ex"
    and "status ex = COMPLETED \<or> status ex = FAILED"
  shows "eid \<notin> set (awaiting sys)"
  using assms by (auto simp: system_ok_def in_flight_ok_def)

lemma settled_record_unchanged:
  assumes fresh: "distinct (uuids (evs @ later))"
    and ex: "map_of (executions (run evs init_system)) eid = Some ex"
    and settled: "status ex = COMPLETED \<or> status ex = FAILED
                  \<or> (status ex = CANCELLED \<and> eid \<notin> set (awaiting (run evs init_system)))"
  shows "map_of (executions (run (evs @ later) init_system)) eid = Some ex"
proof -
  from fresh have d1: "distinct (uuids evs)" and d2: "distinct (uuids later)"
    and disj: "set (uuids later) \<inter> set (uuids evs) = {}"
    by (auto simp: uuids_def)
  from d1 have ok: "system_ok (run evs init_system)"
    by (rule system_ok_reachable)
  from d1 have keys: "map fst (executions (run evs init_system)) = uuids evs"
    using keys_run [of evs init_system] by (simp add: init_system_def)
  from settled ok ex have idle: "eid \<notin> set (awaiting (run evs init_system))"
    using finished_not_awaiting [OF ok ex] by blast
  from settled have terminal: "status ex = COMPLETED \<or> status ex = CANCELLED \<or> status ex = FAILED"
    by blast
  from disj keys have i: "set (uuids later) \<inter> set (map fst (executions (run evs init_system))) = {}"
    by simp
  show ?thesis
    using settled_run [OF ok ex terminal idle d2 i] by (simp add: run_append)
qed

section \<open>The example run\<close>

lemma length_uuids: "length (uuids evs) = length (filter is_execute_call evs)"
proof (induction evs)
  case Nil
  show ?case by (simp add: uuids_def)
next
  case (Cons e evs)
  then show ?case by (cases e) (simp_all add: uuids_def)
qed

lemma demo_run_state:
  "run demo_run init_system =
     \<lparr>executions =
        [(''a'', \<lparr>id' = ''a'', status = COMPLETED, request = [(''message'', PStr ''hello'')],
                  result = Some [(''execution_id'', PStr ''a''), (''response'', PStr ''world''),
                                 (''status'', PStr ''success''), (''timestamp'', PStr ''T11''),
                                 (''agent_type'', PStr ''product_manager'')],
                  error = None, start_time = Some (Datetime ''T01''),
                  end_time = Some (Datetime ''T12'')\<rparr>),
         (''b'', \<lparr>id' = ''b'', status = FAILED, request = [(''message'', PStr '''')],
                  result = None, error = Some ''Execution failed: Message is required'',
                  start_time = Some (Datetime ''T04''), end_time = Some (Datetime ''T05'')\<rparr>),
         (''c'', \<lparr>id' = ''c'', status = CANCELLED, request = [(''message'', PStr ''paint'')],
                  result = None, error = None, start_time = Some (Datetime ''T07''),
                  end_time = Some (Datetime ''T10'')\<rparr>),
         (''d'', \<lparr>id' = ''d'', status = RUNNING, request = [(''message'', PStr ''rollers'')],
                  result = None, error = None, start_time = Some (Datetime ''T13''),
                  end_time = None\<rparr>)],
      awaiting = [''c'', ''d'']\<rparr>"
  by (simp add: demo_run_def init_system_def execute_begin_def execute_except_def
      execute_resume_def cancel_def dict_get_def Let_def)

lemma demo_run_uuids: "uuids demo_run = [''a'', ''b'', ''c'', ''d'']"
  by (simp add: demo_run_def uuids_def)

section \<open>\<open>execute\<close> returns on every printable \<open>Exception\<close>\<close>

text \<open>
  C1, as the code has it. For every request dictionary, every store, everything
  that runs while the call waits, and every answer of the message processor
  that is a returned text or a raised instance of \<open>Exception\<close> whose \<open>str(e)\<close>
  gives a text: \<open>execute\<close> returns a dictionary and raises nothing. When the
  call fails, because the message is rejected or because the processor raises
  such an \<open>e\<close>, the record of the call is Failed, its \<open>error\<close> is
  \<open>Execution failed:\<close> followed by the text of the exception, and the returned
  dictionary has \<open>status\<close> \<open>error\<close>, carries that message as \<open>error\<close> and ends
  its \<open>response\<close> with it.
\<close>

theorem execute_returns_on_exception:
  assumes "(\<exists>r. out = Returns r) \<or> (\<exists>m. out = Raises m)"
  shows "\<exists>p sys1. execute uuid t0 t1 t2 req during out sys = (Inr p, sys1)
     \<and> (\<forall>e. (\<not> truthy (dict_get req ''message'' (PStr '''')) \<and> e = ''Message is required'')
             \<or> (truthy (dict_get req ''message'' (PStr '''')) \<and> out = Raises e) \<longrightarrow>
           (\<exists>ex. map_of (executions sys1) uuid = Some ex
              \<and> status ex = FAILED
              \<and> error ex = Some (''Execution failed: '' @ e))
           \<and> map_of p ''status'' = Some (PStr ''error'')
           \<and> map_of p ''error'' = Some (PStr (''Execution failed: '' @ e))
           \<and> map_of p ''response'' =
               Some (PStr (''I apologize, but I encountered an error processing your request: ''
                           @ ''Execution failed: '' @ e)))"
proof (cases "truthy (dict_get req ''message'' (PStr ''''))")
  case False
  show ?thesis
    using False
    by (simp add: execute_rejected [OF False] map_of_execute_begin)
next
  case True
  let ?sys1 = "run during
      (sys\<lparr>executions := snd (execute_begin uuid t0 t1 t2 req (executions sys)),
           awaiting := awaiting sys @ [uuid]\<rparr>)"
  obtain ex where ex: "map_of (executions ?sys1) uuid = Some ex"
    using record_survives [where aw = "awaiting sys @ [uuid]"] by blast
  from assms show ?thesis
  proof
    assume "\<exists>r. out = Returns r"
    then obtain r where "out = Returns r" by blast
    with True show ?thesis
      by (simp add: execute_accepted [OF True] Let_def execute_resume_present [OF ex]
          map_of_execute_resume [OF ex])
  next
    assume "\<exists>m. out = Raises m"
    then obtain m where "out = Raises m" by blast
    with True show ?thesis
      by (simp add: execute_accepted [OF True] Let_def execute_resume_present [OF ex]
          map_of_execute_resume [OF ex])
  qed
qed

theorem execute_returns_on_exception_witness:
  "(\<exists>sys1. execute ''e1'' (Datetime ''T1'') (Datetime ''T2'') (Datetime ''T3'')
        [(''message'', PStr ''hello'')] [] (Raises ''connection reset'') init_system =
      (Inr [(''execution_id'', PStr ''e1''),
            (''response'', PStr ''I apologize, but I encountered an error processing your request: Execution failed: connection reset''),
            (''status'', PStr ''error''),
            (''timestamp'', PStr ''T3''),
            (''agent_type'', PStr ''product_manager''),
            (''error'', PStr ''Execution failed: connection reset'')], sys1)
      \<and> (\<exists>ex. map_of (executions sys1) ''e1'' = Some ex \<and> status ex = FAILED
            \<and> error ex = Some ''Execution failed: connection reset''))
   \<and> (\<exists>p sys1. execute ''e2'' (Datetime ''T1'') (Datetime ''T2'') (Datetime ''T3'')
        [(''context'', PNone)] [] (Returns ''unused'') init_system = (Inr p, sys1)
      \<and> map_of p ''status'' = Some (PStr ''error'')
      \<and> (\<exists>ex. map_of (executions sys1) ''e2'' = Some ex \<and> status ex = FAILED
            \<and> error ex = Some ''Execution failed: Message is required''))"
proof -
  have h1: "(\<exists>r. Raises ''connection reset'' = Returns r)
            \<or> (\<exists>m. Raises ''connection reset'' = Raises m)"
    and h2: "(\<exists>r. Returns ''unused'' = Returns r) \<or> (\<exists>m. Returns ''unused'' = Raises m)"
    by simp_all
  have t: "truthy (dict_get [(''message'', PStr ''hello'')] ''message'' (PStr ''''))"
    and f: "\<not> truthy (dict_get [(''context'', PNone)] ''message'' (PStr ''''))"
    by (simp_all add: dict_get_def)
  have v: "fst (execute ''e1'' (Datetime ''T1'') (Datetime ''T2'') (Datetime ''T3'')
        [(''message'', PStr ''hello'')] [] (Raises ''connection reset'') init_system) =
      Inr [(''execution_id'', PStr ''e1''),
            (''response'', PStr ''I apologize, but I encountered an error processing your request: Execution failed: connection reset''),
            (''status'', PStr ''error''),
            (''timestamp'', PStr ''T3''),
            (''agent_type'', PStr ''product_manager''),
            (''error'', PStr ''Execution failed: connection reset'')]"
    by (simp add: execute_def execute_begin_def execute_resume_def execute_except_def
        init_system_def dict_get_def Let_def)
  from t f v show ?thesis
    using execute_returns_on_exception [OF h1, of "''e1''" "Datetime ''T1''" "Datetime ''T2''"
        "Datetime ''T3''" "[(''message'', PStr ''hello'')]" "[]" init_system]
      execute_returns_on_exception [OF h2, of "''e2''" "Datetime ''T1''" "Datetime ''T2''"
        "Datetime ''T3''" "[(''context'', PNone)]" "[]" init_system]
    by fastforce
qed

text \<open>
  C1, as it is stated, fails on two answers of the processor. When the task is
  cancelled while \<open>execute\<close> waits, \<open>asyncio.CancelledError\<close> is raised at line
  75; it is not an instance of \<open>Exception\<close>, line 96 does not catch it, and
  \<open>execute\<close> raises it to its caller. When the processor raises an instance
  of \<open>Exception\<close> whose \<open>__str__\<close> raises, \<open>str(e)\<close> at line 97 raises inside the
  handler, and \<open>execute\<close> raises that exception to its caller.
\<close>

theorem execute_propagates_exception:
  "fst (execute ''e1'' (Datetime ''T1'') (Datetime ''T2'') (Datetime ''T3'')
          [(''message'', PStr ''hello'')] [] (RaisesBase ''CancelledError'') init_system)
     = Inl (BaseException ''CancelledError'')
   \<and> fst (execute ''e1'' (Datetime ''T1'') (Datetime ''T2'') (Datetime ''T3'')
          [(''message'', PStr ''hello'')] []
          (RaisesUnprintable (OtherException ''__str__ returned non-string (type NoneType)''))
          init_system)
     = Inl (OtherException ''__str__ returned non-string (type NoneType)'')"
  by (simp add: execute_def execute_begin_def execute_resume_def init_system_def dict_get_def
      Let_def)

section \<open>Invariants of the records\<close>

text \<open>
  C2. In every state the executor reaches by \<open>execute\<close> calls (begun, and
  resumed when the processor answers), \<open>cancel\<close> calls and the two queries, in
  any interleaving, with the identifiers drawn by \<open>uuid4\<close> pairwise different:
  every record of the store has a \<open>result\<close> exactly when its status is
  Completed and an \<open>error\<close> exactly when its status is Failed. So Pending,
  Running and Cancelled records have neither.
\<close>

theorem result_and_error_match_status:
  assumes "distinct (uuids evs)"
    and "map_of (executions (run evs init_system)) eid = Some ex"
  shows "(result ex \<noteq> None \<longleftrightarrow> status ex = COMPLETED)
       \<and> (error ex \<noteq> None \<longleftrightarrow> status ex = FAILED)
       \<and> (status ex \<in> {CANCELLED, PENDING, RUNNING} \<longrightarrow> result ex = None \<and> error ex = None)"
proof -
  from assms(1) have "system_ok (run evs init_system)"
    by (rule system_ok_reachable)
  with assms(2) have "record_ok ex"
    by (simp add: system_ok_def)
  then show ?thesis
    by (auto simp: record_ok_def)
qed

theorem result_and_error_match_status_witness:
  "distinct (uuids demo_run)
   \<and> (\<exists>ex. map_of (executions (run demo_run init_system)) ''a'' = Some ex
         \<and> status ex = COMPLETED \<and> result ex \<noteq> None \<and> error ex = None)
   \<and> (\<exists>ex. map_of (executions (run demo_run init_system)) ''b'' = Some ex
         \<and> status ex = FAILED \<and> result ex = None \<and> error ex \<noteq> None)
   \<and> (\<exists>ex. map_of (executions (run demo_run init_system)) ''c'' = Some ex
         \<and> status ex = CANCELLED \<and> result ex = None \<and> error ex = None)"
proof -
  have d: "distinct (uuids demo_run)"
    by (simp add: demo_run_uuids)
  have a: "\<exists>ex. map_of (executions (run demo_run init_system)) ''a'' = Some ex
                \<and> status ex = COMPLETED"
    and b: "\<exists>ex. map_of (executions (run demo_run init_system)) ''b'' = Some ex
                \<and> status ex = FAILED"
    and c: "\<exists>ex. map_of (executions (run demo_run init_system)) ''c'' = Some ex
                \<and> status ex = CANCELLED"
    by (simp_all add: demo_run_state)
  from a b c d show ?thesis
    using result_and_error_match_status [OF d, of "''a''"]
      result_and_error_match_status [OF d, of "''b''"]
      result_and_error_match_status [OF d, of "''c''"]
    by fastforce
qed

section \<open>A cancelled record is overwritten\<close>

text \<open>
  C3. The claim is that a record that is Completed, Cancelled or Failed never
  changes again. \<open>cancel\<close> checks the status before it writes, the second half
  of \<open>execute\<close> does not: an execution cancelled while it waits for the processor
  is Cancelled with an \<open>end_time\<close>, \<open>cancel\<close> answers that it was cancelled, and
  when the processor answers the same record becomes Completed with a result
  and a new \<open>end_time\<close>.
\<close>

theorem cancelled_record_is_overwritten:
  "fst (cancel ''e1'' (Datetime ''T4'')
     (executions (run [ExecuteCall ''e1'' (Datetime ''T1'') (Datetime ''T2'') (Datetime ''T3'')
                         [(''message'', PStr ''hello'')]] init_system)))
     = [(''execution_id'', PStr ''e1''), (''status'', PStr ''cancelled''),
        (''message'', PStr ''Execution cancelled successfully'')]
   \<and> map_of (executions (run
       [ExecuteCall ''e1'' (Datetime ''T1'') (Datetime ''T2'') (Datetime ''T3'')
          [(''message'', PStr ''hello'')],
        CancelCall ''e1'' (Datetime ''T4'')] init_system)) ''e1''
     = Some \<lparr>id' = ''e1'', status = CANCELLED, request = [(''message'', PStr ''hello'')],
             result = None, error = None, start_time = Some (Datetime ''T1''),
             end_time = Some (Datetime ''T4'')\<rparr>
   \<and> map_of (executions (run
       [ExecuteCall ''e1'' (Datetime ''T1'') (Datetime ''T2'') (Datetime ''T3'')
          [(''message'', PStr ''hello'')],
        CancelCall ''e1'' (Datetime ''T4''),
        ProcessorDone ''e1'' (Returns ''world'') (Datetime ''T5'') (Datetime ''T6'')]
       init_system)) ''e1''
     = Some \<lparr>id' = ''e1'', status = COMPLETED, request = [(''message'', PStr ''hello'')],
             result = Some [(''execution_id'', PStr ''e1''), (''response'', PStr ''world''),
                            (''status'', PStr ''success''), (''timestamp'', PStr ''T5''),
                            (''agent_type'', PStr ''product_manager'')],
             error = None, start_time = Some (Datetime ''T1''),
             end_time = Some (Datetime ''T6'')\<rparr>"
  by (simp add: init_system_def execute_begin_def execute_resume_def cancel_def dict_get_def
      Let_def)

section \<open>Properties of \<open>cancel\<close>\<close>

text \<open>
  C4. \<open>cancel\<close> returns a dictionary on every identifier and every store.
  An unknown identifier gives the error result with message \<open>Execution not found\<close>
  and leaves the store as it is; a record that is Completed, Failed or Cancelled
  gives the error result whose message is \<open>Execution already\<close> followed by the
  value of its status, and the store is unchanged; a Pending or Running record
  becomes Cancelled with \<open>end_time\<close> set (all other fields and all other records
  kept) and the result is the success dictionary.
\<close>

theorem cancel_results:
  "(map_of st eid = None \<longrightarrow>
      cancel eid now st =
        ([(''execution_id'', PStr eid), (''status'', PStr ''error''),
          (''message'', PStr ''Execution not found'')], st))
   \<and> (\<forall>ex. map_of st eid = Some ex \<and> status ex \<in> {COMPLETED, FAILED, CANCELLED} \<longrightarrow>
      cancel eid now st =
        ([(''execution_id'', PStr eid), (''status'', PStr ''error''),
          (''message'', PStr (''Execution already '' @ status_value (status ex)))], st))
   \<and> (\<forall>ex. map_of st eid = Some ex \<and> status ex \<in> {PENDING, RUNNING} \<longrightarrow>
      fst (cancel eid now st) =
        [(''execution_id'', PStr eid), (''status'', PStr ''cancelled''),
         (''message'', PStr ''Execution cancelled successfully'')]
      \<and> map_of (snd (cancel eid now st)) =
          (map_of st)(eid \<mapsto> ex\<lparr>status := CANCELLED, end_time := Some now\<rparr>))"
  by (auto simp: cancel_def update_conv')

theorem cancel_results_witness:
  "cancel ''nonexistent-id'' (Datetime ''t9'') [] =
     ([(''execution_id'', PStr ''nonexistent-id''), (''status'', PStr ''error''),
       (''message'', PStr ''Execution not found'')], [])
   \<and> fst (cancel ''e1'' (Datetime ''t9'')
        [(''e1'', \<lparr>id' = ''e1'', status = RUNNING, request = [(''message'', PStr ''hi'')],
                   result = None, error = None, start_time = Some (Datetime ''t0''), end_time = None\<rparr>)]) =
       [(''execution_id'', PStr ''e1''), (''status'', PStr ''cancelled''),
        (''message'', PStr ''Execution cancelled successfully'')]
   \<and> cancel ''e1'' (Datetime ''t9'')
        [(''e1'', \<lparr>id' = ''e1'', status = CANCELLED, request = [(''message'', PStr ''hi'')],
                   result = None, error = None, start_time = Some (Datetime ''t0''),
                   end_time = Some (Datetime ''t5'')\<rparr>)] =
       ([(''execution_id'', PStr ''e1''), (''status'', PStr ''error''),
         (''message'', PStr ''Execution already cancelled'')],
        [(''e1'', \<lparr>id' = ''e1'', status = CANCELLED, request = [(''message'', PStr ''hi'')],
                   result = None, error = None, start_time = Some (Datetime ''t0''),
                   end_time = Some (Datetime ''t5'')\<rparr>)])"
  using cancel_results [of "[]" "''nonexistent-id''" "Datetime ''t9''"]
    cancel_results [of "[(''e1'', \<lparr>id' = ''e1'', status = RUNNING, request = [(''message'', PStr ''hi'')],
                   result = None, error = None, start_time = Some (Datetime ''t0''), end_time = None\<rparr>)]"
                   "''e1''" "Datetime ''t9''"]
    cancel_results [of "[(''e1'', \<lparr>id' = ''e1'', status = CANCELLED, request = [(''message'', PStr ''hi'')],
                   result = None, error = None, start_time = Some (Datetime ''t0''),
                   end_time = Some (Datetime ''t5'')\<rparr>)]" "''e1''" "Datetime ''t9''"]
  by simp

section \<open>The successful call\<close>

text \<open>
  C5. For every request whose \<open>message\<close> is a non-empty string, every store and
  everything that runs while the call waits: when the processor returns the
  text \<open>r\<close>, \<open>execute\<close> returns the dictionary with exactly the keys
  \<open>execution_id\<close>, \<open>response\<close>, \<open>status\<close>, \<open>timestamp\<close>, \<open>agent_type\<close>, in which
  \<open>response\<close> is \<open>r\<close>, \<open>status\<close> is \<open>success\<close> and \<open>agent_type\<close> is
  \<open>product_manager\<close>, and the record of its \<open>execution_id\<close> is Completed with
  that same dictionary as its \<open>result\<close>.
\<close>

theorem execute_success_payload:
  assumes "map_of req ''message'' = Some (PStr m)" and "m \<noteq> []"
  shows "\<exists>p sys1 ex. execute uuid t0 t1 t2 req during (Returns r) sys = (Inr p, sys1)
     \<and> map fst p = [''execution_id'', ''response'', ''status'', ''timestamp'', ''agent_type'']
     \<and> map_of p ''execution_id'' = Some (PStr uuid)
     \<and> map_of p ''response'' = Some (PStr r)
     \<and> map_of p ''status'' = Some (PStr ''success'')
     \<and> map_of p ''agent_type'' = Some (PStr ''product_manager'')
     \<and> map_of (executions sys1) uuid = Some ex
     \<and> status ex = COMPLETED
     \<and> result ex = Some p"
proof -
  from assms have True: "truthy (dict_get req ''message'' (PStr ''''))"
    by (simp add: dict_get_def)
  let ?sys1 = "run during
      (sys\<lparr>executions := snd (execute_begin uuid t0 t1 t2 req (executions sys)),
           awaiting := awaiting sys @ [uuid]\<rparr>)"
  obtain ex where ex: "map_of (executions ?sys1) uuid = Some ex"
    using record_survives [where aw = "awaiting sys @ [uuid]"] by blast
  show ?thesis
    by (simp add: execute_accepted [OF True] Let_def execute_resume_present [OF ex]
        map_of_execute_resume [OF ex])
qed

theorem execute_success_payload_witness:
  "map_of [(''message'', PStr ''hello'')] ''message'' = Some (PStr ''hello'')
   \<and> ''hello'' \<noteq> []
   \<and> (\<exists>sys1 ex. execute ''e1'' (Datetime ''T1'') (Datetime ''T2'') (Datetime ''T3'')
          [(''message'', PStr ''hello'')] [CancelCall ''e1'' (Datetime ''T4'')]
          (Returns ''world'') init_system =
        (Inr [(''execution_id'', PStr ''e1''), (''response'', PStr ''world''),
              (''status'', PStr ''success''), (''timestamp'', PStr ''T2''),
              (''agent_type'', PStr ''product_manager'')], sys1)
        \<and> map_of (executions sys1) ''e1'' = Some ex \<and> status ex = COMPLETED)"
proof -
  have m: "map_of [(''message'', PStr ''hello'')] ''message'' = Some (PStr ''hello'')"
    and n: "''hello'' \<noteq> []"
    by simp_all
  have v: "fst (execute ''e1'' (Datetime ''T1'') (Datetime ''T2'') (Datetime ''T3'')
          [(''message'', PStr ''hello'')] [CancelCall ''e1'' (Datetime ''T4'')]
          (Returns ''world'') init_system) =
        Inr [(''execution_id'', PStr ''e1''), (''response'', PStr ''world''),
              (''status'', PStr ''success''), (''timestamp'', PStr ''T2''),
              (''agent_type'', PStr ''product_manager'')]"
    by (simp add: execute_def execute_begin_def execute_resume_def cancel_def
        init_system_def dict_get_def Let_def)
  from m n v show ?thesis
    using execute_success_payload [OF m n, of "''e1''" "Datetime ''T1''" "Datetime ''T2''"
        "Datetime ''T3''" "[CancelCall ''e1'' (Datetime ''T4'')]" "''world''" init_system]
    by fastforce
qed

section \<open>The rejected call\<close>

text \<open>
  C6. For every request with no \<open>message\<close> key or with the empty string as
  \<open>message\<close>: \<open>execute\<close> returns a dictionary with \<open>status\<close> \<open>error\<close>; the store
  then has a record under the returned \<open>execution_id\<close>, its status is Failed
  and its \<open>error\<close> is \<open>Execution failed: Message is required\<close>, which holds the
  word \<open>required\<close>; the call returns before line 75, so the processor is not
  called: no coroutine is added to those that wait, and the result does not
  depend on the processor's answer.
\<close>

theorem execute_rejects_missing_message:
  assumes "map_of req ''message'' = None \<or> map_of req ''message'' = Some (PStr '''')"
  shows "\<exists>p sys1 ex. execute uuid t0 t1 t2 req during out sys = (Inr p, sys1)
     \<and> map_of p ''status'' = Some (PStr ''error'')
     \<and> map_of p ''execution_id'' = Some (PStr uuid)
     \<and> map_of (executions sys1) uuid = Some ex
     \<and> status ex = FAILED
     \<and> error ex = Some ''Execution failed: Message is required''
     \<and> (\<exists>a b. error ex = Some (a @ ''required'' @ b))
     \<and> (\<exists>r st. execute_begin uuid t0 t1 t2 req (executions sys) = (Returned r, st))
     \<and> awaiting sys1 = awaiting sys
     \<and> execute uuid t0 t1 t2 req during out sys = execute uuid t0 t1 t2 req [] out' sys"
proof -
  from assms have False: "\<not> truthy (dict_get req ''message'' (PStr ''''))"
    by (auto simp: dict_get_def)
  have "\<exists>r. fst (execute_begin uuid t0 t1 t2 req (executions sys)) = Returned r"
    by (simp add: execute_begin_rejected [OF False])
  then have "\<exists>r st. execute_begin uuid t0 t1 t2 req (executions sys) = (Returned r, st)"
    by (cases "execute_begin uuid t0 t1 t2 req (executions sys)") simp
  moreover have "''Execution failed: Message is required''
                   = ''Execution failed: Message is '' @ ''required'' @ []"
    by simp
  then have "\<exists>a b. ''Execution failed: Message is required'' = a @ ''required'' @ b"
    by blast
  ultimately show ?thesis
    using False
    by (simp add: execute_rejected [OF False] map_of_execute_begin)
qed

theorem execute_rejects_missing_message_witness:
  "map_of [(''message'', PStr '''')] ''message'' = Some (PStr '''')
   \<and> map_of [(''conversation_id'', PStr ''c7'')] ''message'' = None
   \<and> (\<exists>sys1 ex. execute ''e1'' (Datetime ''T1'') (Datetime ''T2'') (Datetime ''T3'')
          [(''message'', PStr '''')] [] (Returns ''world'') init_system =
        (Inr [(''execution_id'', PStr ''e1''),
              (''response'', PStr ''I apologize, but I encountered an error processing your request: Execution failed: Message is required''),
              (''status'', PStr ''error''),
              (''timestamp'', PStr ''T3''),
              (''agent_type'', PStr ''product_manager''),
              (''error'', PStr ''Execution failed: Message is required'')], sys1)
        \<and> map_of (executions sys1) ''e1'' = Some ex \<and> status ex = FAILED)
   \<and> (\<exists>p sys1 ex. execute ''e2'' (Datetime ''T1'') (Datetime ''T2'') (Datetime ''T3'')
          [(''conversation_id'', PStr ''c7'')] [] (Returns ''world'') init_system = (Inr p, sys1)
        \<and> map_of (executions sys1) ''e2'' = Some ex \<and> status ex = FAILED)"
proof -
  have m: "map_of [(''message'', PStr '''')] ''message'' = None
           \<or> map_of [(''message'', PStr '''')] ''message'' = Some (PStr '''')"
    and n: "map_of [(''conversation_id'', PStr ''c7'')] ''message'' = None
           \<or> map_of [(''conversation_id'', PStr ''c7'')] ''message'' = Some (PStr '''')"
    by simp_all
  have v: "fst (execute ''e1'' (Datetime ''T1'') (Datetime ''T2'') (Datetime ''T3'')
          [(''message'', PStr '''')] [] (Returns ''world'') init_system) =
        Inr [(''execution_id'', PStr ''e1''),
              (''response'', PStr ''I apologize, but I encountered an error processing your request: Execution failed: Message is required''),
              (''status'', PStr ''error''),
              (''timestamp'', PStr ''T3''),
              (''agent_type'', PStr ''product_manager''),
              (''error'', PStr ''Execution failed: Message is required'')]"
    by (simp add: execute_def execute_begin_def execute_except_def
        init_system_def dict_get_def Let_def)
  from v show ?thesis
    using execute_rejects_missing_message [OF m, of "''e1''" "Datetime ''T1''" "Datetime ''T2''"
        "Datetime ''T3''" "[]" "Returns ''world''" init_system]
      execute_rejects_missing_message [OF n, of "''e2''" "Datetime ''T1''" "Datetime ''T2''"
        "Datetime ''T3''" "[]" "Returns ''world''" init_system]
    by fastforce
qed

section \<open>The end time of a record\<close>

text \<open>
  C7. In every such state, every record has no \<open>end_time\<close> exactly when its
  status is Pending or Running, and the snapshot \<open>get_execution_status\<close> gives
  for its identifier has \<open>end_time\<close> \<open>None\<close> exactly when its \<open>status\<close> is
  \<open>pending\<close> or \<open>running\<close>.
\<close>

theorem end_time_matches_status:
  assumes "distinct (uuids evs)"
    and "map_of (executions (run evs init_system)) eid = Some ex"
  shows "(end_time ex = None \<longleftrightarrow> status ex = PENDING \<or> status ex = RUNNING)
       \<and> (map_of (get_execution_status eid (executions (run evs init_system))) ''end_time''
            = Some PNone
          \<longleftrightarrow> map_of (get_execution_status eid (executions (run evs init_system))) ''status''
                = Some (PStr ''pending'')
              \<or> map_of (get_execution_status eid (executions (run evs init_system))) ''status''
                = Some (PStr ''running''))"
proof -
  from assms(1) have "system_ok (run evs init_system)"
    by (rule system_ok_reachable)
  with assms(2) have ok: "record_ok ex"
    by (simp add: system_ok_def)
  then have rec: "end_time ex = None \<longleftrightarrow> status ex = PENDING \<or> status ex = RUNNING"
    by (simp add: record_ok_def)
  have snap: "map_of (get_execution_status eid (executions (run evs init_system))) ''end_time''
                = Some (isoformat_or_None (end_time ex))"
    "map_of (get_execution_status eid (executions (run evs init_system))) ''status''
                = Some (PStr (status_value (status ex)))"
    using assms(2) by (simp_all add: get_execution_status_def)
  have "isoformat_or_None (end_time ex) = PNone \<longleftrightarrow> end_time ex = None"
    by (simp add: isoformat_or_None_def split: option.splits)
  moreover have "status_value (status ex) = ''pending'' \<longleftrightarrow> status ex = PENDING"
    "status_value (status ex) = ''running'' \<longleftrightarrow> status ex = RUNNING"
    by (cases "status ex"; simp)+
  ultimately show ?thesis
    using rec snap by simp
qed

theorem end_time_matches_status_witness:
  "distinct (uuids demo_run)
   \<and> (\<exists>ex. map_of (executions (run demo_run init_system)) ''d'' = Some ex
         \<and> status ex = RUNNING \<and> end_time ex = None)
   \<and> map_of (get_execution_status ''d'' (executions (run demo_run init_system))) ''end_time''
       = Some PNone
   \<and> (\<exists>ex. map_of (executions (run demo_run init_system)) ''c'' = Some ex
         \<and> status ex = CANCELLED \<and> end_time ex \<noteq> None)
   \<and> map_of (get_execution_status ''c'' (executions (run demo_run init_system))) ''end_time''
       \<noteq> Some PNone"
proof -
  have d: "distinct (uuids demo_run)"
    by (simp add: demo_run_uuids)
  have r: "\<exists>ex. map_of (executions (run demo_run init_system)) ''d'' = Some ex
                \<and> status ex = RUNNING"
    and c: "\<exists>ex. map_of (executions (run demo_run init_system)) ''c'' = Some ex
                \<and> status ex = CANCELLED"
    and s: "map_of (get_execution_status ''d'' (executions (run demo_run init_system))) ''status''
              = Some (PStr ''running'')"
      "map_of (get_execution_status ''c'' (executions (run demo_run init_system))) ''status''
              = Some (PStr ''cancelled'')"
    by (simp_all add: demo_run_state get_execution_status_def)
  from r c s d show ?thesis
    using end_time_matches_status [OF d, of "''d''"]
      end_time_matches_status [OF d, of "''c''"]
    by fastforce
qed

section \<open>Listing the executions\<close>

text \<open>
  C8. After any interleaving of events that holds \<open>n\<close> calls of \<open>execute\<close>
  (rejected, answered or still waiting), with pairwise different identifiers,
  \<open>list_executions\<close> gives exactly \<open>n\<close> summaries, one for each drawn
  identifier in the order of the calls; every summary of any store has the four
  keys \<open>execution_id\<close>, \<open>status\<close>, \<open>start_time\<close>, \<open>end_time\<close> and no other; and
  a \<open>get_execution_status\<close> or \<open>list_executions\<close> call leaves the state as
  it was.
\<close>

theorem list_executions_counts_execute_calls:
  assumes "distinct (uuids evs)"
  shows "length (list_executions (executions (run evs init_system)))
           = length (filter is_execute_call evs)
       \<and> map (\<lambda>s. map_of s ''execution_id'') (list_executions (executions (run evs init_system)))
           = map (\<lambda>u. Some (PStr u)) (uuids evs)
       \<and> (\<forall>s \<in> set (list_executions st).
            map fst s = [''execution_id'', ''status'', ''start_time'', ''end_time''])
       \<and> step (StatusCall eid) sys = sys
       \<and> step ListCall sys = sys"
proof -
  from assms have keys: "map fst (executions (run evs init_system)) = uuids evs"
    using keys_run [of evs init_system] by (simp add: init_system_def)
  have ids: "map (\<lambda>s. map_of s ''execution_id'') (list_executions xs)
               = map (\<lambda>u. Some (PStr u)) (map fst xs)" for xs
    by (induction xs) (auto simp: list_executions_def)
  have "length (list_executions (executions (run evs init_system)))
          = length (map fst (executions (run evs init_system)))"
    by (simp add: list_executions_def)
  then have n: "length (list_executions (executions (run evs init_system)))
                  = length (filter is_execute_call evs)"
    by (simp only: keys length_uuids)
  have fields: "\<forall>s \<in> set (list_executions st).
                  map fst s = [''execution_id'', ''status'', ''start_time'', ''end_time'']"
    by (auto simp: list_executions_def)
  from n ids [of "executions (run evs init_system)"] keys fields show ?thesis
    by simp
qed

theorem list_executions_counts_execute_calls_witness:
  "distinct (uuids demo_run)
   \<and> length (filter is_execute_call demo_run) = 4
   \<and> list_executions (executions (run demo_run init_system)) =
       [[(''execution_id'', PStr ''a''), (''status'', PStr ''completed''),
         (''start_time'', PStr ''T01''), (''end_time'', PStr ''T12'')],
        [(''execution_id'', PStr ''b''), (''status'', PStr ''failed''),
         (''start_time'', PStr ''T04''), (''end_time'', PStr ''T05'')],
        [(''execution_id'', PStr ''c''), (''status'', PStr ''cancelled''),
         (''start_time'', PStr ''T07''), (''end_time'', PStr ''T10'')],
        [(''execution_id'', PStr ''d''), (''status'', PStr ''running''),
         (''start_time'', PStr ''T13''), (''end_time'', PNone)]]"
proof -
  have d: "distinct (uuids demo_run)"
    by (simp add: demo_run_uuids)
  have l: "list_executions (executions (run demo_run init_system)) =
       [[(''execution_id'', PStr ''a''), (''status'', PStr ''completed''),
         (''start_time'', PStr ''T01''), (''end_time'', PStr ''T12'')],
        [(''execution_id'', PStr ''b''), (''status'', PStr ''failed''),
         (''start_time'', PStr ''T04''), (''end_time'', PStr ''T05'')],
        [(''execution_id'', PStr ''c''), (''status'', PStr ''cancelled''),
         (''start_time'', PStr ''T07''), (''end_time'', PStr ''T10'')],
        [(''execution_id'', PStr ''d''), (''status'', PStr ''running''),
         (''start_time'', PStr ''T13''), (''end_time'', PNone)]]"
    by (simp add: demo_run_state list_executions_def isoformat_or_None_def)
  from list_executions_counts_execute_calls [OF d] have
    "length (list_executions (executions (run demo_run init_system)))
       = length (filter is_execute_call demo_run)"
    by simp
  with d l show ?thesis
    by simp
qed

section \<open>The status endpoint\<close>

text \<open>
  C9. \<open>GET /status/{id}\<close> answers 404 exactly when the identifier is not in the
  store, and otherwise 200 with the snapshot of \<open>get_execution_status\<close>: for a
  record of the store the \<open>status\<close> of the snapshot is the value of its
  \<open>ExecutionStatus\<close>, one of \<open>pending\<close>, \<open>running\<close>, \<open>completed\<close>,
  \<open>cancelled\<close>, \<open>failed\<close>, and so never the \<open>error\<close> the endpoint tests for.
\<close>

theorem status_endpoint_404_iff_unknown:
  "(fst (status_endpoint eid st) = 404 \<longleftrightarrow> map_of st eid = None)
   \<and> (map_of st eid \<noteq> None \<longrightarrow> status_endpoint eid st = (200, get_execution_status eid st))
   \<and> (\<forall>ex. map_of st eid = Some ex \<longrightarrow>
         map_of (get_execution_status eid st) ''status'' = Some (PStr (status_value (status ex)))
         \<and> status_value (status ex)
             \<in> {''pending'', ''running'', ''completed'', ''cancelled'', ''failed''}
         \<and> status_value (status ex) \<noteq> ''error'')"
proof -
  have v: "status_value s \<in> {''pending'', ''running'', ''completed'', ''cancelled'', ''failed''}
           \<and> status_value s \<noteq> ''error''" for s
    by (cases s) simp_all
  have known: "status_endpoint eid st = (200, get_execution_status eid st)
               \<and> map_of (get_execution_status eid st) ''status''
                   = Some (PStr (status_value (status ex)))"
    if "map_of st eid = Some ex" for ex
    using that v [of "status ex"]
    by (simp add: status_endpoint_def get_execution_status_def Let_def)
  have unknown: "fst (status_endpoint eid st) = 404" if "map_of st eid = None"
    using that by (simp add: status_endpoint_def get_execution_status_def Let_def)
  show ?thesis
    using known unknown v by (cases "map_of st eid") auto
qed

theorem status_endpoint_404_iff_unknown_witness:
  "map_of (executions (run demo_run init_system)) ''zz'' = None
   \<and> fst (status_endpoint ''zz'' (executions (run demo_run init_system))) = 404
   \<and> map_of (executions (run demo_run init_system)) ''b'' \<noteq> None
   \<and> status_endpoint ''b'' (executions (run demo_run init_system)) =
       (200, [(''execution_id'', PStr ''b''), (''status'', PStr ''failed''),
              (''start_time'', PStr ''T04''), (''end_time'', PStr ''T05''),
              (''result'', PNone),
              (''error'', PStr ''Execution failed: Message is required'')])"
proof -
  have z: "map_of (executions (run demo_run init_system)) ''zz'' = None"
    and b: "map_of (executions (run demo_run init_system)) ''b'' \<noteq> None"
    and g: "get_execution_status ''b'' (executions (run demo_run init_system)) =
       [(''execution_id'', PStr ''b''), (''status'', PStr ''failed''),
        (''start_time'', PStr ''T04''), (''end_time'', PStr ''T05''),
        (''result'', PNone),
        (''error'', PStr ''Execution failed: Message is required'')]"
    by (simp_all add: demo_run_state get_execution_status_def isoformat_or_None_def)
  from z b g show ?thesis
    using status_endpoint_404_iff_unknown [of "''zz''" "executions (run demo_run init_system)"]
      status_endpoint_404_iff_unknown [of "''b''" "executions (run demo_run init_system)"]
    by simp
qed

section \<open>The chat endpoint\<close>

text \<open>
  C10. For every chat request the \<open>/chat/message\<close> endpoint processes: when
  \<open>execute\<close> succeeds (the message is not empty and the processor returns the
  text \<open>r\<close>), the chat response has \<open>r\<close> as \<open>response\<close> and \<open>completed\<close> as
  \<open>status\<close>; when \<open>execute\<close> fails (the message is empty, or the processor
  raises), the chat response has \<open>status\<close> \<open>error\<close> and its \<open>response\<close> is the
  \<open>error\<close> of the record, while \<open>/execute\<close> answers the same failure with 200
  and a \<open>response\<close> that is the apology text ending in that message, which is
  a different text.
\<close>

theorem chat_response_of_execute_result:
  "(req_message cr \<noteq> [] \<longrightarrow>
      fst (chat_with_agent cr uuid t0 t1 t2 during (Returns r) sys) =
        Inr \<lparr>resp_response = r, resp_execution_id = uuid, resp_status = ''completed'',
             resp_metadata = Some []\<rparr>)
   \<and> ((req_message cr = [] \<and> e = ''Message is required'')
        \<or> (req_message cr \<noteq> [] \<and> out = Raises e) \<longrightarrow>
      (\<exists>sys1 ex p.
         chat_with_agent cr uuid t0 t1 t2 during out sys =
           (Inr \<lparr>resp_response = ''Execution failed: '' @ e, resp_execution_id = uuid,
                 resp_status = ''error'', resp_metadata = Some []\<rparr>, sys1)
         \<and> map_of (executions sys1) uuid = Some ex
         \<and> error ex = Some (''Execution failed: '' @ e)
         \<and> execute_endpoint (execution_request cr) uuid t0 t1 t2 during out sys = (Inr (200, p), sys1)
         \<and> map_of p ''response'' =
             Some (PStr (''I apologize, but I encountered an error processing your request: ''
                         @ ''Execution failed: '' @ e))
         \<and> map_of p ''response'' \<noteq> Some (PStr (''Execution failed: '' @ e))))"
proof -
  let ?req = "execution_request cr"
  have msg: "dict_get ?req ''message'' (PStr '''') = PStr (req_message cr)"
    and present: "map_of ?req ''message'' \<noteq> None"
    by (simp_all add: execution_request_def dict_get_def)
  let ?sys1 = "run during
      (sys\<lparr>executions := snd (execute_begin uuid t0 t1 t2 ?req (executions sys)),
           awaiting := awaiting sys @ [uuid]\<rparr>)"
  obtain ex where ex: "map_of (executions ?sys1) uuid = Some ex"
    using record_survives [where aw = "awaiting sys @ [uuid]"] by blast
  have ok: "fst (chat_with_agent cr uuid t0 t1 t2 during (Returns r) sys) =
        Inr \<lparr>resp_response = r, resp_execution_id = uuid, resp_status = ''completed'',
             resp_metadata = Some []\<rparr>" if "req_message cr \<noteq> []"
  proof -
    from that msg have True: "truthy (dict_get ?req ''message'' (PStr ''''))"
      by simp
    show ?thesis
      by (simp add: chat_with_agent_def execute_accepted [OF True] Let_def
          execute_resume_present [OF ex] chat_response_def dict_get_def)
  qed
  have rejected: "\<exists>sys1 ex p.
         chat_with_agent cr uuid t0 t1 t2 during out sys =
           (Inr \<lparr>resp_response = ''Execution failed: '' @ e, resp_execution_id = uuid,
                 resp_status = ''error'', resp_metadata = Some []\<rparr>, sys1)
         \<and> map_of (executions sys1) uuid = Some ex
         \<and> error ex = Some (''Execution failed: '' @ e)
         \<and> execute_endpoint ?req uuid t0 t1 t2 during out sys = (Inr (200, p), sys1)
         \<and> map_of p ''response'' =
             Some (PStr (''I apologize, but I encountered an error processing your request: ''
                         @ ''Execution failed: '' @ e))
         \<and> map_of p ''response'' \<noteq> Some (PStr (''Execution failed: '' @ e))"
    if "req_message cr = []" and "e = ''Message is required''"
  proof -
    from that msg have False: "\<not> truthy (dict_get ?req ''message'' (PStr ''''))"
      by simp
    show ?thesis
      using present False that(2)
      by (simp add: chat_with_agent_def execute_endpoint_def execute_rejected [OF False]
          chat_response_def dict_get_def map_of_execute_begin)
  qed
  have raised: "\<exists>sys1 ex p.
         chat_with_agent cr uuid t0 t1 t2 during out sys =
           (Inr \<lparr>resp_response = ''Execution failed: '' @ e, resp_execution_id = uuid,
                 resp_status = ''error'', resp_metadata = Some []\<rparr>, sys1)
         \<and> map_of (executions sys1) uuid = Some ex
         \<and> error ex = Some (''Execution failed: '' @ e)
         \<and> execute_endpoint ?req uuid t0 t1 t2 during out sys = (Inr (200, p), sys1)
         \<and> map_of p ''response'' =
             Some (PStr (''I apologize, but I encountered an error processing your request: ''
                         @ ''Execution failed: '' @ e))
         \<and> map_of p ''response'' \<noteq> Some (PStr (''Execution failed: '' @ e))"
    if "req_message cr \<noteq> []" and "out = Raises e"
  proof -
    from that msg have True: "truthy (dict_get ?req ''message'' (PStr ''''))"
      by simp
    show ?thesis
      using present that(2)
      by (simp add: chat_with_agent_def execute_endpoint_def execute_accepted [OF True] Let_def
          execute_resume_present [OF ex] map_of_execute_resume [OF ex]
          chat_response_def dict_get_def)
  qed
  from ok rejected raised show ?thesis
    by blast
qed

theorem chat_response_of_execute_result_witness:
  "fst (chat_with_agent \<lparr>req_message = ''hello'', req_session_id = Some ''s1'',
                         req_conversation_id = None, req_metadata = None\<rparr>
          ''e1'' (Datetime ''T1'') (Datetime ''T2'') (Datetime ''T3'') [] (Returns ''world'')
          init_system) =
     Inr \<lparr>resp_response = ''world'', resp_execution_id = ''e1'', resp_status = ''completed'',
          resp_metadata = Some []\<rparr>
   \<and> fst (chat_with_agent \<lparr>req_message = ''hello'', req_session_id = Some ''s1'',
                         req_conversation_id = None, req_metadata = None\<rparr>
          ''e1'' (Datetime ''T1'') (Datetime ''T2'') (Datetime ''T3'') [] (Raises ''timeout'')
          init_system) =
     Inr \<lparr>resp_response = ''Execution failed: timeout'', resp_execution_id = ''e1'',
          resp_status = ''error'', resp_metadata = Some []\<rparr>
   \<and> map_sum id fst (fst (execute_endpoint
          (execution_request \<lparr>req_message = ''hello'', req_session_id = Some ''s1'',
                              req_conversation_id = None, req_metadata = None\<rparr>)
          ''e1'' (Datetime ''T1'') (Datetime ''T2'') (Datetime ''T3'') [] (Raises ''timeout'')
          init_system)) = Inr 200
   \<and> fst (chat_with_agent \<lparr>req_message = '''', req_session_id = None,
                         req_conversation_id = None, req_metadata = None\<rparr>
          ''e2'' (Datetime ''T1'') (Datetime ''T2'') (Datetime ''T3'') [] (Returns ''world'')
          init_system) =
     Inr \<lparr>resp_response = ''Execution failed: Message is required'', resp_execution_id = ''e2'',
          resp_status = ''error'', resp_metadata = Some []\<rparr>"
proof -
  let ?hello = "\<lparr>req_message = ''hello'', req_session_id = Some ''s1'',
                 req_conversation_id = None, req_metadata = None\<rparr>"
  let ?empty = "\<lparr>req_message = '''', req_session_id = None,
                 req_conversation_id = None, req_metadata = None\<rparr>"
  note hello = chat_response_of_execute_result [of ?hello "''e1''" "Datetime ''T1''"
      "Datetime ''T2''" "Datetime ''T3''" "[]" "''world''" init_system "''timeout''"
      "Raises ''timeout''"]
  note empty = chat_response_of_execute_result [of ?empty "''e2''" "Datetime ''T1''"
      "Datetime ''T2''" "Datetime ''T3''" "[]" "''world''" init_system
      "''Message is required''" "Returns ''world''"]
  have a: "fst (chat_with_agent ?hello ''e1'' (Datetime ''T1'') (Datetime ''T2'')
                  (Datetime ''T3'') [] (Returns ''world'') init_system) =
     Inr \<lparr>resp_response = ''world'', resp_execution_id = ''e1'', resp_status = ''completed'',
          resp_metadata = Some []\<rparr>"
    using hello [THEN conjunct1] by simp
  have "(req_message ?hello = [] \<and> ''timeout'' = ''Message is required'')
        \<or> (req_message ?hello \<noteq> [] \<and> Raises ''timeout'' = Raises ''timeout'')"
    by simp
  with hello [THEN conjunct2] obtain sys1 ex p where
    b: "chat_with_agent ?hello ''e1'' (Datetime ''T1'') (Datetime ''T2'') (Datetime ''T3'') []
          (Raises ''timeout'') init_system =
        (Inr \<lparr>resp_response = ''Execution failed: '' @ ''timeout'', resp_execution_id = ''e1'',
              resp_status = ''error'', resp_metadata = Some []\<rparr>, sys1)"
    and c: "execute_endpoint (execution_request ?hello) ''e1'' (Datetime ''T1'') (Datetime ''T2'')
          (Datetime ''T3'') [] (Raises ''timeout'') init_system = (Inr (200, p), sys1)"
    by blast
  have "(req_message ?empty = [] \<and> ''Message is required'' = ''Message is required'')
        \<or> (req_message ?empty \<noteq> [] \<and> Returns ''world'' = Raises ''Message is required'')"
    by simp
  with empty [THEN conjunct2] obtain sys2 ex2 p2 where
    d: "chat_with_agent ?empty ''e2'' (Datetime ''T1'') (Datetime ''T2'') (Datetime ''T3'') []
          (Returns ''world'') init_system =
        (Inr \<lparr>resp_response = ''Execution failed: '' @ ''Message is required'',
              resp_execution_id = ''e2'', resp_status = ''error'',
              resp_metadata = Some []\<rparr>, sys2)"
    by blast
  from a b c d show ?thesis
    by simp
qed

end
